theory Spec2Isabelle
  imports Main "HOL-Library.Code_Target_Nat"
begin

section \<open>JavaScript values\<close>

text \<open>
  The raw failure handed to \<open>mapError\<close> has the TypeScript type \<open>unknown\<close>: anything can
  be thrown.  Values are modelled as data: the primitives, functions and objects.
  \<^item> \<open>JNum n\<close> is the number that the integer literal \<open>n\<close> denotes: \<open>n\<close> itself up to
    \<open>2^53\<close> in magnitude, the nearest double beyond.
  \<^item> \<open>JFun src out\<close> is a function with source text \<open>src\<close>; \<open>out\<close> is what calling it as a
    method without arguments gives: \<open>Some v\<close> when it returns \<open>v\<close>, \<open>None\<close> when it raises.
  \<^item> \<open>JObj fs\<close> is an ordinary object with the properties \<open>fs\<close>, which inherits from
    \<open>Object.prototype\<close>; \<open>JNullProto fs\<close> is an object with no prototype.
  Strings are lists of characters.
\<close>

datatype jsval =
    JUndefined
  | JNull
  | JBool bool
  | JNum int
  | JStr string
  | JFun string "jsval option"
  | JObj "(string \<times> jsval) list"
  | JNullProto "(string \<times> jsval) list"

datatype js_error = TypeError | ParseError | Thrown

text \<open>Optional chaining \<open>v?.p\<close> for the properties \<open>message\<close>, \<open>status\<close> and \<open>code\<close>:
  \<open>undefined\<close> on \<open>null\<close> and \<open>undefined\<close>, and on a primitive or a function, which have
  none of them.\<close>

fun opt_chain :: "jsval \<Rightarrow> string \<Rightarrow> jsval" where
  "opt_chain (JObj fs) p = (case map_of fs p of Some v \<Rightarrow> v | None \<Rightarrow> JUndefined)"
| "opt_chain (JNullProto fs) p = (case map_of fs p of Some v \<Rightarrow> v | None \<Rightarrow> JUndefined)"
| "opt_chain _ p = JUndefined"

subsection \<open>Numbers as text\<close>

fun digits10 :: "nat \<Rightarrow> string" where
  "digits10 n =
     (if n < 10 then [''0123456789'' ! n]
      else digits10 (n div 10) @ [''0123456789'' ! (n mod 10)])"

fun bit_length :: "nat \<Rightarrow> nat" where
  "bit_length n = (if n = 0 then 0 else Suc (bit_length (n div 2)))"

text \<open>The double nearest to a natural number: 53 significant bits, ties to even.\<close>

definition to_double :: "nat \<Rightarrow> nat" where
  "to_double a =
     (if bit_length a \<le> 53 then a
      else
        (let sh = bit_length a - 53;
             q = a div 2 ^ sh;
             r = a mod 2 ^ sh;
             half = 2 ^ (sh - 1)
         in (if half < r \<or> (r = half \<and> odd q) then q + 1 else q) * 2 ^ sh))"

text \<open>
  \<open>Number::toString\<close> prints the decimal with the fewest significant digits that still
  denotes the double, the closest one when there are two.  \<open>pick d k\<close> looks among the
  decimals of at most \<open>k\<close> significant digits next to \<open>d\<close>.
\<close>

definition pick :: "nat \<Rightarrow> nat \<Rightarrow> nat option" where
  "pick d k =
     (let p = 10 ^ (length (digits10 d) - k);
          lo = (d div p) * p;
          hi = lo + p
      in if to_double lo = d then
           (if to_double hi = d \<and>
               (hi - d < d - lo \<or> (hi - d = d - lo \<and> odd (lo div p)))
            then Some hi else Some lo)
         else if to_double hi = d then Some hi
         else None)"

fun first_pick :: "nat \<Rightarrow> nat list \<Rightarrow> nat" where
  "first_pick d [] = d"
| "first_pick d (k # ks) = (case pick d k of Some c \<Rightarrow> c | None \<Rightarrow> first_pick d ks)"

definition shortest_decimal :: "nat \<Rightarrow> nat" where
  "shortest_decimal d = first_pick d [1 ..< 18]"

definition strip_zeros :: "string \<Rightarrow> string" where
  "strip_zeros ds = rev (dropWhile (\<lambda>c. c = CHR ''0'') (rev ds))"

text \<open>Up to 21 digits are printed in full, longer numbers in exponent form.\<close>

definition render_decimal :: "nat \<Rightarrow> string" where
  "render_decimal v =
     (let ds = digits10 v; n = length ds; s = strip_zeros ds
      in if n \<le> 21 then ds
         else if length s = 1 then s @ ''e+'' @ digits10 (n - 1)
         else hd s # ''.'' @ tl s @ ''e+'' @ digits10 (n - 1))"

definition number_to_string :: "int \<Rightarrow> string" where
  "number_to_string i =
     (let d = to_double (nat \<bar>i\<bar>);
          body = (if 2 ^ 1024 \<le> d then ''Infinity'' else render_decimal (shortest_decimal d))
      in if i < 0 then ''-'' @ body else body)"

subsection \<open>The conversion \<open>String(v)\<close>\<close>

text \<open>The text of a primitive; \<open>None\<close> on a function or an object.\<close>

fun primitive_string :: "jsval \<Rightarrow> string option" where
  "primitive_string JUndefined = Some ''undefined''"
| "primitive_string JNull = Some ''null''"
| "primitive_string (JBool b) = Some (if b then ''true'' else ''false'')"
| "primitive_string (JNum n) = Some (number_to_string n)"
| "primitive_string (JStr s) = Some s"
| "primitive_string (JFun src out) = None"
| "primitive_string (JObj fs) = None"
| "primitive_string (JNullProto fs) = None"

text \<open>Calling a property value as a method without arguments; \<open>None\<close> when the value
  is not callable.\<close>

fun call_method :: "jsval \<Rightarrow> (js_error + jsval) option" where
  "call_method (JFun src out) = Some (case out of None \<Rightarrow> Inl Thrown | Some r \<Rightarrow> Inr r)"
| "call_method _ = None"

text \<open>
  What the method \<open>name\<close> of a function or an object gives, for \<open>toString\<close> and
  \<open>valueOf\<close>.  An ordinary object without a property of that name inherits
  \<open>Object.prototype.toString\<close>, which gives \<open>[object Object]\<close>, and
  \<open>Object.prototype.valueOf\<close>, which gives the object itself; a function inherits
  \<open>Function.prototype.toString\<close>, which gives its source text.
\<close>

definition method_result :: "jsval \<Rightarrow> string \<Rightarrow> (js_error + jsval) option" where
  "method_result obj name =
     (case obj of
        JObj fs \<Rightarrow>
          (case map_of fs name of
             Some f \<Rightarrow> call_method f
           | None \<Rightarrow>
               if name = ''toString'' then Some (Inr (JStr ''[object Object]''))
               else if name = ''valueOf'' then Some (Inr obj)
               else None)
      | JNullProto fs \<Rightarrow> (case map_of fs name of Some f \<Rightarrow> call_method f | None \<Rightarrow> None)
      | JFun src out \<Rightarrow>
          if name = ''toString'' then Some (Inr (JStr src))
          else if name = ''valueOf'' then Some (Inr obj)
          else None
      | _ \<Rightarrow> None)"

text \<open>The conversion of an object to a primitive with hint string: \<open>toString\<close> first,
  then \<open>valueOf\<close>; a type error when neither is callable and gives a primitive.\<close>

definition via_valueOf :: "jsval \<Rightarrow> js_error + string" where
  "via_valueOf obj =
     (case method_result obj ''valueOf'' of
        Some (Inl x) \<Rightarrow> Inl x
      | Some (Inr r) \<Rightarrow> (case primitive_string r of Some s \<Rightarrow> Inr s | None \<Rightarrow> Inl TypeError)
      | None \<Rightarrow> Inl TypeError)"

definition object_to_string :: "jsval \<Rightarrow> js_error + string" where
  "object_to_string obj =
     (case method_result obj ''toString'' of
        Some (Inl x) \<Rightarrow> Inl x
      | Some (Inr r) \<Rightarrow> (case primitive_string r of Some s \<Rightarrow> Inr s | None \<Rightarrow> via_valueOf obj)
      | None \<Rightarrow> via_valueOf obj)"

definition js_String :: "jsval \<Rightarrow> js_error + string" where
  "js_String v = (case primitive_string v of Some s \<Rightarrow> Inr s | None \<Rightarrow> object_to_string v)"

text \<open>\<open>String.prototype.includes\<close>: the needle occurs as a contiguous run.\<close>

fun starts_with :: "string \<Rightarrow> string \<Rightarrow> bool" where
  "starts_with s [] = True"
| "starts_with [] (k # ks) = False"
| "starts_with (c # cs) (k # ks) = (c = k \<and> starts_with cs ks)"

fun str_includes :: "string \<Rightarrow> string \<Rightarrow> bool" where
  "str_includes [] k = (k = [])"
| "str_includes (c # cs) k = (starts_with (c # cs) k \<or> str_includes cs k)"

section \<open>The R2 error taxonomy\<close>

datatype operation =
    OpHead | OpGet | OpPut | OpDelete | OpList
  | OpCreateMultipartUpload | OpResumeMultipartUpload
  | OpUploadPart | OpCompleteMultipartUpload | OpAbortMultipartUpload

text \<open>
  One constructor for each tagged error class of the first module, its arguments in the
  order of the class's schema.  An optional field is an \<open>option\<close>; the optional
  \<open>cause\<close> of \<open>R2NetworkError\<close> holds any value, \<open>JUndefined\<close> when it is absent.
\<close>

datatype r2_error =
    R2RateLimitError string operation "int option"
      \<comment> \<open>key, operation, retryAfter?\<close>
  | R2ConcurrencyError "string option" operation string
      \<comment> \<open>key?, operation, reason\<close>
  | R2ObjectTooLargeError string operation "int option" "int option"
      \<comment> \<open>key, operation, sizeBytes?, limit?\<close>
  | R2InvalidKeyError string operation string
      \<comment> \<open>key, operation, reason\<close>
  | R2MetadataError string operation string "int option"
      \<comment> \<open>key, operation, reason, sizeBytes?\<close>
  | R2PreconditionFailedError string operation string
      \<comment> \<open>key, operation, condition\<close>
  | R2MultipartError "string option" operation string "string option" "int option"
      \<comment> \<open>key?, operation, reason, uploadId?, partNumber?\<close>
  | R2BucketNotFoundError operation "string option"
      \<comment> \<open>operation, bucketName?\<close>
  | R2NotEnabledError operation
  | R2AuthorizationError operation string
      \<comment> \<open>operation, reason\<close>
  | R2NetworkError "string option" operation string jsval
      \<comment> \<open>key?, operation, reason, cause?\<close>
  | R2ObjectTooSmallError string operation "int option" "int option"
      \<comment> \<open>key, operation, sizeBytes?, partNumber?\<close>
  | R2BadDigestError string operation string "string option"
      \<comment> \<open>key, operation, reason, algorithm?\<close>
  | R2InvalidMaxKeysError operation "int option"
      \<comment> \<open>operation, limit?\<close>
  | R2InvalidRangeError string operation string
      \<comment> \<open>key, operation, reason\<close>
  | R2InvalidArgumentError operation string "string option"
      \<comment> \<open>operation, reason, key?\<close>
  | R2InternalError operation string "string option"
      \<comment> \<open>operation, reason, key?\<close>

text \<open>The variants of the taxonomy, by the names the specification gives them.\<close>

datatype variant =
    RateLimited | TooMuchConcurrency | ObjectTooLarge | ObjectTooSmall | InvalidKey
  | InvalidRange | MetadataTooLarge | PreconditionFailed | MultipartError | BucketNotFound
  | NotEnabled | AuthorizationFailed | BadDigest | InvalidMaxKeys | InvalidArgument
  | InternalError | NetworkError

fun variant_of :: "r2_error \<Rightarrow> variant" where
  "variant_of (R2RateLimitError k ope r) = RateLimited"
| "variant_of (R2ConcurrencyError k ope r) = TooMuchConcurrency"
| "variant_of (R2ObjectTooLargeError k ope s l) = ObjectTooLarge"
| "variant_of (R2InvalidKeyError k ope r) = InvalidKey"
| "variant_of (R2MetadataError k ope r s) = MetadataTooLarge"
| "variant_of (R2PreconditionFailedError k ope c) = PreconditionFailed"
| "variant_of (R2MultipartError k ope r u n) = MultipartError"
| "variant_of (R2BucketNotFoundError ope b) = BucketNotFound"
| "variant_of (R2NotEnabledError ope) = NotEnabled"
| "variant_of (R2AuthorizationError ope r) = AuthorizationFailed"
| "variant_of (R2NetworkError k ope r c) = NetworkError"
| "variant_of (R2ObjectTooSmallError k ope s n) = ObjectTooSmall"
| "variant_of (R2BadDigestError k ope r a) = BadDigest"
| "variant_of (R2InvalidMaxKeysError ope l) = InvalidMaxKeys"
| "variant_of (R2InvalidRangeError k ope r) = InvalidRange"
| "variant_of (R2InvalidArgumentError ope r k) = InvalidArgument"
| "variant_of (R2InternalError ope r k) = InternalError"

section \<open>The classification cascade\<close>

text \<open>The table \<open>R2ErrorCode\<close>.\<close>

abbreviation INTERNAL_ERROR :: int where "INTERNAL_ERROR \<equiv> 10001"
abbreviation NO_SUCH_OBJECT_KEY :: int where "NO_SUCH_OBJECT_KEY \<equiv> 10007"
abbreviation ENTITY_TOO_LARGE :: int where "ENTITY_TOO_LARGE \<equiv> 100100"
abbreviation ENTITY_TOO_SMALL :: int where "ENTITY_TOO_SMALL \<equiv> 10011"
abbreviation METADATA_TOO_LARGE :: int where "METADATA_TOO_LARGE \<equiv> 10012"
abbreviation INVALID_OBJECT_NAME :: int where "INVALID_OBJECT_NAME \<equiv> 10020"
abbreviation INVALID_MAX_KEYS :: int where "INVALID_MAX_KEYS \<equiv> 10022"
abbreviation NO_SUCH_UPLOAD :: int where "NO_SUCH_UPLOAD \<equiv> 10024"
abbreviation INVALID_PART :: int where "INVALID_PART \<equiv> 10025"
abbreviation INVALID_ARGUMENT :: int where "INVALID_ARGUMENT \<equiv> 10029"
abbreviation PRECONDITION_FAILED :: int where "PRECONDITION_FAILED \<equiv> 10031"
abbreviation BAD_DIGEST :: int where "BAD_DIGEST \<equiv> 10037"
abbreviation INVALID_RANGE :: int where "INVALID_RANGE \<equiv> 10039"
abbreviation BAD_UPLOAD :: int where "BAD_UPLOAD \<equiv> 10048"

text \<open>\<open>key ?? ""\<close> for the optional parameter \<open>key\<close>.\<close>

definition key_or_empty :: "string option \<Rightarrow> string" where
  "key_or_empty key = (case key of None \<Rightarrow> [] | Some k \<Rightarrow> k)"

definition extractReason :: "jsval \<Rightarrow> jsval" where
  "extractReason message = message"

text \<open>
  The constructor of a tagged error class validates its arguments against the class's
  schema.  The fields \<open>reason\<close> and \<open>condition\<close> are \<open>Schema.String\<close>: the constructor
  raises a parse error when it is given a message that is not a string.  All other
  arguments of the constructor calls in \<open>mapError\<close> are well-typed by construction.
\<close>

definition with_reason :: "jsval \<Rightarrow> (string \<Rightarrow> r2_error) \<Rightarrow> js_error + r2_error" where
  "with_reason reason mk = (case reason of JStr s \<Rightarrow> Inr (mk s) | _ \<Rightarrow> Inl ParseError)"

text \<open>Priority 1: the \<open>switch\<close> on the provider error code.  \<open>switch\<close> compares with
  \<open>===\<close>, so only a number matches a case label; \<open>None\<close> is falling out of the switch.\<close>

definition by_code ::
  "jsval \<Rightarrow> jsval \<Rightarrow> operation \<Rightarrow> string option \<Rightarrow> (js_error + r2_error) option" where
  "by_code code message operation key =
     (case code of
        JNum c \<Rightarrow>
          if c = INTERNAL_ERROR then
            Some (with_reason (extractReason message) (\<lambda>r. R2InternalError operation r key))
          else if c = ENTITY_TOO_LARGE then
            Some (Inr (R2ObjectTooLargeError (key_or_empty key) operation None None))
          else if c = ENTITY_TOO_SMALL then
            Some (Inr (R2ObjectTooSmallError (key_or_empty key) operation None None))
          else if c = METADATA_TOO_LARGE then
            Some (Inr (R2MetadataError (key_or_empty key) operation
                         ''Metadata exceeds size limit'' None))
          else if c = INVALID_OBJECT_NAME then
            Some (with_reason (extractReason message)
                    (\<lambda>r. R2InvalidKeyError (key_or_empty key) operation r))
          else if c = INVALID_MAX_KEYS then
            Some (Inr (R2InvalidMaxKeysError operation None))
          else if c = NO_SUCH_UPLOAD then
            Some (Inr (R2MultipartError key operation
                         ''The specified multipart upload does not exist'' None None))
          else if c = INVALID_PART then
            Some (Inr (R2MultipartError key operation
                         ''One or more of the specified parts could not be found'' None None))
          else if c = INVALID_ARGUMENT then
            Some (with_reason (extractReason message)
                    (\<lambda>r. R2InvalidArgumentError operation r key))
          else if c = PRECONDITION_FAILED then
            Some (with_reason (extractReason message)
                    (\<lambda>r. R2PreconditionFailedError (key_or_empty key) operation r))
          else if c = BAD_DIGEST then
            Some (with_reason (extractReason message)
                    (\<lambda>r. R2BadDigestError (key_or_empty key) operation r None))
          else if c = INVALID_RANGE then
            Some (with_reason (extractReason message)
                    (\<lambda>r. R2InvalidRangeError (key_or_empty key) operation r))
          else if c = BAD_UPLOAD then
            Some (Inr (R2MultipartError key operation
                         ''There was a problem with the multipart upload'' None None))
          else if c = 10006 then
            Some (Inr (R2BucketNotFoundError operation None))
          else if c = 10042 then
            Some (Inr (R2NotEnabledError operation))
          else None
      | _ \<Rightarrow> None)"

text \<open>The body of \<open>case 400\<close>, for a message that is a string.\<close>

definition case_400 :: "string \<Rightarrow> operation \<Rightarrow> string option \<Rightarrow> r2_error" where
  "case_400 message operation key =
     (if str_includes message ''key'' \<and>
         (str_includes message ''empty'' \<or> str_includes message ''invalid'') then
        R2InvalidKeyError (key_or_empty key) operation message
      else if str_includes message ''metadata'' \<or> str_includes message ''Metadata'' then
        R2MetadataError (key_or_empty key) operation message None
      else if str_includes message ''multipart'' \<or> str_includes message ''part'' \<or>
              str_includes message ''upload'' \<or> str_includes message ''NoSuchUpload'' \<or>
              str_includes message ''InvalidPart'' then
        R2MultipartError key operation message None None
      else if str_includes message ''digest'' \<or> str_includes message ''checksum'' then
        R2BadDigestError (key_or_empty key) operation message None
      else if str_includes message ''too large'' \<or> str_includes message ''exceeds'' then
        R2ObjectTooLargeError (key_or_empty key) operation None None
      else if str_includes message ''too small'' then
        R2ObjectTooSmallError (key_or_empty key) operation None None
      else R2InvalidArgumentError operation message key)"

text \<open>Priority 2: the \<open>switch\<close> on the HTTP status.  In \<open>case 400\<close> the first thing
  evaluated is \<open>message.includes\<close>, a type error on a message that is not a string.\<close>

definition by_status ::
  "jsval \<Rightarrow> jsval \<Rightarrow> operation \<Rightarrow> string option \<Rightarrow> (js_error + r2_error) option" where
  "by_status status message operation key =
     (case status of
        JNum s \<Rightarrow>
          if s = 429 then
            Some (Inr (R2RateLimitError (key_or_empty key) operation None))
          else if s = 412 then
            Some (with_reason (extractReason message)
                    (\<lambda>r. R2PreconditionFailedError (key_or_empty key) operation r))
          else if s = 416 then
            Some (with_reason (extractReason message)
                    (\<lambda>r. R2InvalidRangeError (key_or_empty key) operation r))
          else if s = 401 \<or> s = 403 then
            Some (with_reason (extractReason message) (\<lambda>r. R2AuthorizationError operation r))
          else if s = 500 then
            Some (with_reason (extractReason message) (\<lambda>r. R2InternalError operation r key))
          else if s = 400 then
            Some (case message of
                    JStr m \<Rightarrow> Inr (case_400 m operation key)
                  | _ \<Rightarrow> Inl TypeError)
          else None
      | _ \<Rightarrow> None)"

text \<open>Priority 3 and the fallback, for a message that is a string.\<close>

definition priority_3 :: "jsval \<Rightarrow> string \<Rightarrow> operation \<Rightarrow> string option \<Rightarrow> r2_error" where
  "priority_3 error message operation key =
     (if str_includes message ''NoSuchBucket'' then
        R2BucketNotFoundError operation None
      else if str_includes message ''Please enable'' \<or> str_includes message ''not entitled'' then
        R2NotEnabledError operation
      else if str_includes message ''TooMuchConcurrency'' \<or>
              str_includes message ''concurrency'' then
        R2ConcurrencyError key operation message
      else R2NetworkError key operation message error)"

definition by_message ::
  "jsval \<Rightarrow> jsval \<Rightarrow> operation \<Rightarrow> string option \<Rightarrow> js_error + r2_error" where
  "by_message error message operation key =
     (case message of
        JStr m \<Rightarrow> Inr (priority_3 error m operation key)
      | _ \<Rightarrow> Inl TypeError)"

text \<open>\<open>errorObj?.message ?? String(error)\<close>: the conversion runs, and can raise, only
  when the property is \<open>undefined\<close> or \<open>null\<close>.\<close>

definition message_of :: "jsval \<Rightarrow> js_error + jsval" where
  "message_of error =
     (let m = opt_chain error ''message''
      in if m = JUndefined \<or> m = JNull then
           (case js_String error of Inl x \<Rightarrow> Inl x | Inr s \<Rightarrow> Inr (JStr s))
         else Inr m)"

definition mapError :: "jsval \<Rightarrow> operation \<Rightarrow> string option \<Rightarrow> js_error + r2_error" where
  "mapError error operation key =
     (case message_of error of
        Inl x \<Rightarrow> Inl x
      | Inr message \<Rightarrow>
          (let status = opt_chain error ''status'';
               code = opt_chain error ''code''
           in case by_code code message operation key of
                Some r \<Rightarrow> r
              | None \<Rightarrow>
                  (case by_status status message operation key of
                     Some r \<Rightarrow> r
                   | None \<Rightarrow> by_message error message operation key)))"

section \<open>The second module's error union and cascade\<close>

text \<open>The second module declares its own error classes; its union \<open>R2BucketError\<close> has
  these eleven members.\<close>

datatype r2_error_v2 =
    R2RateLimitError_v2 string operation "int option"
  | R2ConcurrencyError_v2 "string option" operation string
  | R2ObjectTooLargeError_v2 string operation "int option" "int option"
  | R2InvalidKeyError_v2 string operation string
  | R2MetadataError_v2 string operation string "int option"
  | R2PreconditionFailedError_v2 string operation string
  | R2MultipartError_v2 "string option" operation string "string option" "int option"
  | R2BucketNotFoundError_v2 operation "string option"
  | R2NotEnabledError_v2 operation
  | R2AuthorizationError_v2 operation string
  | R2NetworkError_v2 "string option" operation string jsval

fun variant_of_v2 :: "r2_error_v2 \<Rightarrow> variant" where
  "variant_of_v2 (R2RateLimitError_v2 k ope r) = RateLimited"
| "variant_of_v2 (R2ConcurrencyError_v2 k ope r) = TooMuchConcurrency"
| "variant_of_v2 (R2ObjectTooLargeError_v2 k ope s l) = ObjectTooLarge"
| "variant_of_v2 (R2InvalidKeyError_v2 k ope r) = InvalidKey"
| "variant_of_v2 (R2MetadataError_v2 k ope r s) = MetadataTooLarge"
| "variant_of_v2 (R2PreconditionFailedError_v2 k ope c) = PreconditionFailed"
| "variant_of_v2 (R2MultipartError_v2 k ope r u n) = MultipartError"
| "variant_of_v2 (R2BucketNotFoundError_v2 ope b) = BucketNotFound"
| "variant_of_v2 (R2NotEnabledError_v2 ope) = NotEnabled"
| "variant_of_v2 (R2AuthorizationError_v2 ope r) = AuthorizationFailed"
| "variant_of_v2 (R2NetworkError_v2 k ope r c) = NetworkError"

text \<open>The \<open>switch\<close> on the status of the second \<open>mapError\<close>, for a message that is a
  string.\<close>

definition switch_status_v2 ::
  "jsval \<Rightarrow> jsval \<Rightarrow> string \<Rightarrow> operation \<Rightarrow> string option \<Rightarrow> r2_error_v2" where
  "switch_status_v2 error status message operation key =
     (if status = JNum 429 then
        R2RateLimitError_v2 (key_or_empty key) operation None
      else if status = JNum 412 then
        R2PreconditionFailedError_v2 (key_or_empty key) operation message
      else if status = JNum 416 then
        R2InvalidKeyError_v2 (key_or_empty key) operation ''Invalid range request''
      else if status = JNum 414 then
        R2InvalidKeyError_v2 (key_or_empty key) operation ''Key exceeds 1024 byte limit''
      else if status = JNum 413 then
        (if str_includes message ''metadata'' \<or> str_includes message ''Metadata'' then
           R2MetadataError_v2 (key_or_empty key) operation
             ''Metadata exceeds 8192 byte limit'' None
         else R2ObjectTooLargeError_v2 (key_or_empty key) operation None None)
      else if status = JNum 401 \<or> status = JNum 403 then
        R2AuthorizationError_v2 operation message
      else if status = JNum 400 then
        (if str_includes message ''key'' \<and>
            (str_includes message ''empty'' \<or> str_includes message ''invalid'') then
           R2InvalidKeyError_v2 (key_or_empty key) operation message
         else if str_includes message ''multipart'' \<or> str_includes message ''part'' \<or>
                 str_includes message ''upload'' \<or> str_includes message ''NoSuchUpload'' \<or>
                 str_includes message ''InvalidPart'' then
           R2MultipartError_v2 key operation message None None
         else R2NetworkError_v2 key operation message error)
      else if str_includes message ''TooMuchConcurrency'' \<or>
              str_includes message ''concurrency'' then
        R2ConcurrencyError_v2 key operation message
      else R2NetworkError_v2 key operation message error)"

text \<open>
  The second \<open>mapError\<close>.  \<open>code === 10006 || message.includes(...)\<close> evaluates
  \<open>message.includes\<close> unless the code is 10006, so from the second test on the message is
  known to be a string.
\<close>

definition mapError_v2 :: "jsval \<Rightarrow> operation \<Rightarrow> string option \<Rightarrow> js_error + r2_error_v2" where
  "mapError_v2 error operation key =
     (case message_of error of
        Inl x \<Rightarrow> Inl x
      | Inr message \<Rightarrow>
          (let status = opt_chain error ''status'';
               code = opt_chain error ''code''
           in if code = JNum 10006 then Inr (R2BucketNotFoundError_v2 operation None)
              else
                (case message of
                   JStr m \<Rightarrow>
                     if str_includes m ''NoSuchBucket'' then
                       Inr (R2BucketNotFoundError_v2 operation None)
                     else if code = JNum 10042 \<or> str_includes m ''Please enable'' then
                       Inr (R2NotEnabledError_v2 operation)
                     else Inr (switch_status_v2 error status m operation key)
                 | _ \<Rightarrow> Inl TypeError)))"

section \<open>The conditional-result adapter\<close>

text \<open>
  A provider call returns a promise, which settles as resolved with a value or rejected
  with a raw failure.  An effect built by \<open>Effect.tryPromise\<close> ends in a success, in a
  typed failure (what \<open>catch\<close> returned), or, when \<open>catch\<close> itself raises, in a defect.
\<close>

datatype 'a promise = Resolved 'a | Rejected jsval

datatype ('a, 'e) exit = Success 'a | Failure 'e | Die js_error

definition tryPromise :: "'a promise \<Rightarrow> (jsval \<Rightarrow> js_error + 'e) \<Rightarrow> ('a, 'e) exit" where
  "tryPromise try catch =
     (case try of
        Resolved a \<Rightarrow> Success a
      | Rejected error \<Rightarrow> (case catch error of Inr e \<Rightarrow> Failure e | Inl d \<Rightarrow> Die d))"

text \<open>\<open>const result = await p; return f(result)\<close> in an \<open>async\<close> function.\<close>

fun await_return :: "'a promise \<Rightarrow> ('a \<Rightarrow> 'b) \<Rightarrow> 'b promise" where
  "await_return (Resolved result) f = Resolved (f result)"
| "await_return (Rejected error) f = Rejected error"

text \<open>\<open>result === null ? Option.none() : Option.some(result)\<close>\<close>

definition null_to_none :: "jsval \<Rightarrow> jsval option" where
  "null_to_none result = (if result = JNull then None else Some result)"

record ('c, 'r) GetOptions =
  onlyIf :: "'c option"
  range :: "'r option"

text \<open>The native options object: a property is set only when the option is present.\<close>

record ('c, 'r) nativeOptions =
  native_onlyIf :: "'c option"
  native_range :: "'r option"

text \<open>The provider client, as far as \<open>head\<close> and \<open>get\<close> use it; the second argument of
  \<open>bucket.get\<close> is \<open>None\<close> when the call passes no options.\<close>

record ('c, 'r) R2Bucket =
  bucket_head :: "string \<Rightarrow> jsval promise"
  bucket_get :: "string \<Rightarrow> ('c, 'r) nativeOptions option \<Rightarrow> jsval promise"

definition make_head :: "('c, 'r) R2Bucket \<Rightarrow> string \<Rightarrow> (jsval option, r2_error) exit" where
  "make_head bucket key =
     tryPromise (await_return (bucket_head bucket key) null_to_none)
       (\<lambda>error. mapError error OpHead (Some key))"

definition make_get ::
  "('c, 'r) R2Bucket \<Rightarrow> string \<Rightarrow> ('c, 'r) GetOptions option \<Rightarrow> (jsval option, r2_error) exit" where
  "make_get bucket key options =
     (case options of
        None \<Rightarrow>
          tryPromise (await_return (bucket_get bucket key None) null_to_none)
            (\<lambda>error. mapError error OpGet (Some key))
      | Some opts \<Rightarrow>
          (let nativeOptions =
                 \<lparr>native_onlyIf = onlyIf opts, native_range = range opts\<rparr>
           in tryPromise (await_return (bucket_get bucket key (Some nativeOptions)) null_to_none)
                (\<lambda>error. mapError error OpGet (Some key))))"

section \<open>The environment resolver\<close>

definition typeof :: "jsval \<Rightarrow> string" where
  "typeof v =
     (case v of
        JUndefined \<Rightarrow> ''undefined''
      | JNull \<Rightarrow> ''object''
      | JBool b \<Rightarrow> ''boolean''
      | JNum n \<Rightarrow> ''number''
      | JStr s \<Rightarrow> ''string''
      | JFun src out \<Rightarrow> ''function''
      | JObj fs \<Rightarrow> ''object''
      | JNullProto fs \<Rightarrow> ''object'')"

text \<open>The names every ordinary object inherits from \<open>Object.prototype\<close>.\<close>

definition object_prototype_names :: "string list" where
  "object_prototype_names =
     [''constructor'', ''__defineGetter__'', ''__defineSetter__'', ''hasOwnProperty'',
      ''__lookupGetter__'', ''__lookupSetter__'', ''isPrototypeOf'', ''propertyIsEnumerable'',
      ''toString'', ''valueOf'', ''__proto__'', ''toLocaleString'']"

text \<open>\<open>p in v\<close> on an object; the guards before it in \<open>isKVNamespace\<close> let it run on
  objects only.\<close>

definition js_in :: "string \<Rightarrow> jsval \<Rightarrow> bool" where
  "js_in p v =
     (case v of
        JObj fs \<Rightarrow> map_of fs p \<noteq> None \<or> p \<in> set object_prototype_names
      | JNullProto fs \<Rightarrow> map_of fs p \<noteq> None
      | _ \<Rightarrow> False)"

definition isKVNamespace :: "jsval \<Rightarrow> bool" where
  "isKVNamespace binding =
     (binding \<noteq> JUndefined \<and> binding \<noteq> JNull \<and> typeof binding = ''object'' \<and>
      js_in ''get'' binding \<and> js_in ''put'' binding \<and> js_in ''list'' binding \<and>
      js_in ''delete'' binding)"

text \<open>
  A value held by the result of \<open>makeEnv\<close>: what \<open>makeKVNamespace\<close> built from a
  binding, or a value stored as it is.  \<open>makeKVNamespace\<close> comes from the module
  \<open>kv-namespace\<close> and is a parameter here; what it builds is an object.  The
  environment is an ordinary object, given by its enumerable properties in enumeration
  order.
\<close>

datatype 'w env_value = Effectified 'w | Unchanged jsval

text \<open>The object \<open>effectEnv\<close>: its own properties, and its prototype when that has been
  replaced (\<open>None\<close> is \<open>Object.prototype\<close>, which it has from the start).\<close>

record 'w effect_env =
  own_properties :: "string \<rightharpoonup> 'w env_value"
  prototype :: "'w env_value option"

definition is_object_or_null :: "'w env_value \<Rightarrow> bool" where
  "is_object_or_null v =
     (case v of
        Effectified w \<Rightarrow> True
      | Unchanged b \<Rightarrow>
          (case b of
             JNull \<Rightarrow> True
           | JFun src out \<Rightarrow> True
           | JObj fs \<Rightarrow> True
           | JNullProto fs \<Rightarrow> True
           | _ \<Rightarrow> False))"

text \<open>
  The assignment \<open>effectEnv[key] = v\<close>.  The name \<open>__proto__\<close> is an accessor of
  \<open>Object.prototype\<close>: assigning to it stores no property; it replaces the prototype
  when the value is an object or \<open>null\<close> and does nothing otherwise.
\<close>

definition assign :: "'w effect_env \<Rightarrow> string \<Rightarrow> 'w env_value \<Rightarrow> 'w effect_env" where
  "assign effectEnv key v =
     (if key = ''__proto__'' then
        (if is_object_or_null v then effectEnv\<lparr>prototype := Some v\<rparr> else effectEnv)
      else effectEnv\<lparr>own_properties := (own_properties effectEnv)(key \<mapsto> v)\<rparr>)"

text \<open>\<open>env[key]\<close> for a name \<open>key\<close> that the loop reads from \<open>env\<close> itself.\<close>

definition env_get :: "(string \<times> jsval) list \<Rightarrow> string \<Rightarrow> jsval" where
  "env_get env key = (case map_of env key of Some binding \<Rightarrow> binding | None \<Rightarrow> JUndefined)"

definition makeEnv :: "(jsval \<Rightarrow> 'w) \<Rightarrow> (string \<times> jsval) list \<Rightarrow> 'w effect_env" where
  "makeEnv makeKVNamespace env =
     fold (\<lambda>key effectEnv.
             let binding = env_get env key
             in if isKVNamespace binding
                then assign effectEnv key (Effectified (makeKVNamespace binding))
                else assign effectEnv key (Unchanged binding))
       (map fst env)
       \<lparr>own_properties = [''~raw'' \<mapsto> Unchanged (JObj env)], prototype = None\<rparr>"

section \<open>Notions used to state the properties\<close>

text \<open>The lookup from a provider error code to the variant it stands for: the case
  labels of the \<open>switch\<close> on the code, with the variant of the class each one builds.\<close>

definition code_table :: "int \<Rightarrow> variant option" where
  "code_table c =
     (if c = INTERNAL_ERROR then Some InternalError
      else if c = ENTITY_TOO_LARGE then Some ObjectTooLarge
      else if c = ENTITY_TOO_SMALL then Some ObjectTooSmall
      else if c = METADATA_TOO_LARGE then Some MetadataTooLarge
      else if c = INVALID_OBJECT_NAME then Some InvalidKey
      else if c = INVALID_MAX_KEYS then Some InvalidMaxKeys
      else if c = NO_SUCH_UPLOAD then Some MultipartError
      else if c = INVALID_PART then Some MultipartError
      else if c = INVALID_ARGUMENT then Some InvalidArgument
      else if c = PRECONDITION_FAILED then Some PreconditionFailed
      else if c = BAD_DIGEST then Some BadDigest
      else if c = INVALID_RANGE then Some InvalidRange
      else if c = BAD_UPLOAD then Some MultipartError
      else if c = 10006 then Some BucketNotFound
      else if c = 10042 then Some NotEnabled
      else None)"

definition recognized_code :: "jsval \<Rightarrow> bool" where
  "recognized_code code = (case code of JNum c \<Rightarrow> code_table c \<noteq> None | _ \<Rightarrow> False)"

text \<open>The statuses that have a case in the \<open>switch\<close> of the first \<open>mapError\<close>.\<close>

definition recognized_status :: "jsval \<Rightarrow> bool" where
  "recognized_status status =
     (case status of JNum s \<Rightarrow> s \<in> {429, 412, 416, 401, 403, 500, 400} | _ \<Rightarrow> False)"

text \<open>
  A raw failure whose message is text: its \<open>message\<close> property is a string, or the
  property is \<open>null\<close> or missing and \<open>String(error)\<close> gives the message without raising.
\<close>

definition text_failure :: "jsval \<Rightarrow> bool" where
  "text_failure error =
     (case opt_chain error ''message'' of
        JStr s \<Rightarrow> True
      | JUndefined \<Rightarrow> (case js_String error of Inr s \<Rightarrow> True | Inl x \<Rightarrow> False)
      | JNull \<Rightarrow> (case js_String error of Inr s \<Rightarrow> True | Inl x \<Rightarrow> False)
      | _ \<Rightarrow> False)"

text \<open>\<open>String.prototype.toLowerCase\<close> on ASCII text.  Neither \<open>mapError\<close> calls it; it
  serves to state the sentence about the lowercased message.\<close>

definition lower_char :: "char \<Rightarrow> char" where
  "lower_char c =
     (case map_of (zip ''ABCDEFGHIJKLMNOPQRSTUVWXYZ'' ''abcdefghijklmnopqrstuvwxyz'') c of
        Some l \<Rightarrow> l
      | None \<Rightarrow> c)"

definition toLowerCase :: "string \<Rightarrow> string" where
  "toLowerCase s = map lower_char s"

text \<open>A provider client that settles every \<open>head\<close> and \<open>get\<close> call the same way.\<close>

definition constant_bucket :: "jsval promise \<Rightarrow> (unit, unit) R2Bucket" where
  "constant_bucket p = \<lparr>bucket_head = (\<lambda>key. p), bucket_get = (\<lambda>key native. p)\<rparr>"

text \<open>A provider client that holds one object under every key and honours a condition
  that never holds: \<open>get\<close> with \<open>onlyIf\<close> resolves to \<open>null\<close>.\<close>

definition conditional_bucket :: "jsval \<Rightarrow> (unit, unit) R2Bucket" where
  "conditional_bucket obj =
     \<lparr>bucket_head = (\<lambda>key. Resolved obj),
      bucket_get = (\<lambda>key native.
        case native of
          None \<Rightarrow> Resolved obj
        | Some opts \<Rightarrow> if native_onlyIf opts = None then Resolved obj else Resolved JNull)\<rparr>"

text \<open>The second argument of the call \<open>bucket.get\<close> that \<open>get\<close> makes for given options.\<close>

definition native_call :: "('c, 'r) GetOptions option \<Rightarrow> ('c, 'r) nativeOptions option" where
  "native_call options =
     (case options of
        None \<Rightarrow> None
      | Some opts \<Rightarrow> Some \<lparr>native_onlyIf = onlyIf opts, native_range = range opts\<rparr>)"

section \<open>Facts about the stages of the cascade\<close>

lemmas string_defs = js_String_def object_to_string_def via_valueOf_def method_result_def

lemmas eval_defs = mapError_def message_of_def by_code_def by_status_def by_message_def
  case_400_def priority_3_def with_reason_def extractReason_def key_or_empty_def string_defs

lemmas eval_v2_defs = mapError_v2_def message_of_def switch_status_v2_def key_or_empty_def
  string_defs

lemma text_failure_message: "text_failure e \<Longrightarrow> \<exists>m. message_of e = Inr (JStr m)"
  by (auto simp: text_failure_def message_of_def Let_def split: jsval.splits sum.splits)

lemma message_of_text: "opt_chain e ''message'' = JStr m \<Longrightarrow> message_of e = Inr (JStr m)"
  by (simp add: message_of_def)

lemma message_of_raises:
  "message_of e = Inl x \<Longrightarrow> mapError e ope key = Inl x \<and> mapError_v2 e ope key = Inl x"
  by (simp add: mapError_def mapError_v2_def)

lemma by_code_table:
  "code_table c = Some t \<Longrightarrow>
   \<exists>v. by_code (JNum c) (JStr m) ope key = Some (Inr v) \<and> variant_of v = t"
  by (simp add: code_table_def by_code_def with_reason_def extractReason_def split: if_splits)

lemma by_code_unrecognized: "\<not> recognized_code code \<Longrightarrow> by_code code message ope key = None"
  by (simp add: recognized_code_def code_table_def by_code_def split: jsval.splits if_splits)

lemma by_code_text: "by_code code (JStr m) ope key = Some r \<Longrightarrow> \<exists>v. r = Inr v"
  by (auto simp: by_code_def with_reason_def extractReason_def split: jsval.splits if_splits)

lemma by_status_text: "by_status status (JStr m) ope key = Some r \<Longrightarrow> \<exists>v. r = Inr v"
  by (auto simp: by_status_def with_reason_def extractReason_def split: jsval.splits if_splits)

lemma by_status_unrecognized:
  "\<not> recognized_status status \<Longrightarrow> by_status status message ope key = None"
  by (simp add: recognized_status_def by_status_def split: jsval.splits if_splits)

lemma by_status_400:
  "by_status (JNum 400) (JStr m) ope key = Some (Inr (case_400 m ope key))"
  by (simp add: by_status_def)

lemma mapError_text_returns:
  assumes "message_of e = Inr (JStr m)"
  shows "\<exists>v. mapError e ope key = Inr v"
proof (cases "by_code (opt_chain e ''code'') (JStr m) ope key")
  case (Some r)
  with by_code_text [OF Some] assms show ?thesis by (auto simp: mapError_def)
next
  case None
  show ?thesis
  proof (cases "by_status (opt_chain e ''status'') (JStr m) ope key")
    case (Some r)
    with by_status_text [OF Some] assms None show ?thesis by (auto simp: mapError_def)
  next
    case unmatched: None
    with None assms show ?thesis by (simp add: mapError_def by_message_def)
  qed
qed

lemma mapError_fallthrough:
  assumes "\<not> recognized_code (opt_chain e ''code'')"
    and "\<not> recognized_status (opt_chain e ''status'')"
    and "message_of e = Inr (JStr m)"
  shows "mapError e ope key = Inr (priority_3 e m ope key)"
  using assms(3) by_code_unrecognized [OF assms(1)] by_status_unrecognized [OF assms(2)]
  by (simp add: mapError_def by_message_def)

lemma mapError_400:
  assumes "opt_chain e ''status'' = JNum 400"
    and "\<not> recognized_code (opt_chain e ''code'')"
    and "message_of e = Inr (JStr m)"
  shows "mapError e ope key = Inr (case_400 m ope key)"
  using assms(1,3) by_code_unrecognized [OF assms(2)] by (simp add: mapError_def by_status_400)

lemma variant_priority_3:
  "variant_of (priority_3 e m ope key) =
     (if str_includes m ''NoSuchBucket'' then BucketNotFound
      else if str_includes m ''Please enable'' \<or> str_includes m ''not entitled'' then NotEnabled
      else if str_includes m ''TooMuchConcurrency'' \<or> str_includes m ''concurrency''
        then TooMuchConcurrency
      else NetworkError)"
  by (simp add: priority_3_def)

lemma variant_case_400:
  "variant_of (case_400 m ope key) = variant_of (case_400 m ope' key')"
  by (simp add: case_400_def)

lemma by_code_not_rate: "by_code code m ope key \<noteq> Some (Inr (R2RateLimitError k ope' r))"
  by (simp add: by_code_def with_reason_def split: jsval.splits)

lemma by_status_rate:
  "by_status st m ope key = Some (Inr (R2RateLimitError k ope' r)) \<Longrightarrow>
   st = JNum 429 \<and> k = key_or_empty key \<and> ope' = ope \<and> r = None"
  by (simp add: by_status_def with_reason_def case_400_def split: jsval.splits if_splits)

lemma by_message_not_rate: "by_message e m ope key \<noteq> Inr (R2RateLimitError k ope' r)"
  by (simp add: by_message_def priority_3_def split: jsval.splits)

lemma mapError_rate:
  assumes "mapError e ope key = Inr (R2RateLimitError k ope' r)"
  shows "opt_chain e ''status'' = JNum 429 \<and> k = key_or_empty key \<and> ope' = ope \<and> r = None"
proof (cases "message_of e")
  case (Inl x)
  with assms show ?thesis by (simp add: mapError_def)
next
  case (Inr msg)
  show ?thesis
  proof (cases "by_code (opt_chain e ''code'') msg ope key")
    case (Some x)
    with assms Inr by_code_not_rate show ?thesis by (simp add: mapError_def)
  next
    case None
    show ?thesis
    proof (cases "by_status (opt_chain e ''status'') msg ope key")
      case (Some x)
      with assms Inr None by_status_rate show ?thesis by (simp add: mapError_def)
    next
      case unmatched: None
      with assms Inr None by_message_not_rate show ?thesis by (simp add: mapError_def)
    qed
  qed
qed

lemma mapError_v2_rate:
  assumes "mapError_v2 e ope key = Inr (R2RateLimitError_v2 k ope' r)"
  shows "opt_chain e ''status'' = JNum 429 \<and> k = key_or_empty key \<and> ope' = ope \<and> r = None"
  using assms
  by (simp add: mapError_v2_def Let_def switch_status_v2_def
      split: sum.splits jsval.splits if_splits)

lemma unrecognized_v2_codes:
  "\<not> recognized_code code \<Longrightarrow> code \<noteq> JNum 10006 \<and> code \<noteq> JNum 10042"
  by (auto simp: recognized_code_def code_table_def)

lemma unrecognized_413: "\<not> recognized_status (JNum 413)"
  by (simp add: recognized_status_def)

section \<open>Facts about the environment resolver\<close>

lemma fold_assign:
  "''__proto__'' \<notin> set ks \<Longrightarrow>
   fold (\<lambda>k m. assign m k (g k)) ks m0 =
     m0\<lparr>own_properties :=
          (\<lambda>x. if x \<in> set ks then Some (g x) else own_properties m0 x)\<rparr>"
proof (induction ks arbitrary: m0)
  case Nil
  then show ?case by simp
next
  case (Cons k ks)
  then have k: "k \<noteq> ''__proto__''" and ks: "''__proto__'' \<notin> set ks" by auto
  have "fold (\<lambda>k m. assign m k (g k)) (k # ks) m0 =
          (assign m0 k (g k))\<lparr>own_properties :=
             (\<lambda>x. if x \<in> set ks then Some (g x)
                   else own_properties (assign m0 k (g k)) x)\<rparr>"
    by (simp add: Cons.IH [OF ks])
  also have "\<dots> = m0\<lparr>own_properties :=
             (\<lambda>x. if x \<in> set (k # ks) then Some (g x) else own_properties m0 x)\<rparr>"
    by (simp add: assign_def k fun_eq_iff)
  finally show ?case .
qed

lemma makeEnv_lookup:
  assumes "''__proto__'' \<notin> fst ` set env"
  shows "makeEnv mk env =
     \<lparr>own_properties =
        (\<lambda>x. if x \<in> fst ` set env
             then Some (if isKVNamespace (env_get env x)
                        then Effectified (mk (env_get env x))
                        else Unchanged (env_get env x))
             else [''~raw'' \<mapsto> Unchanged (JObj env)] x),
      prototype = None\<rparr>"
proof -
  define g where "g = (\<lambda>k. if isKVNamespace (env_get env k)
                     then Effectified (mk (env_get env k))
                     else Unchanged (env_get env k))"
  have "(\<lambda>key effectEnv.
             let binding = env_get env key
             in if isKVNamespace binding
                then assign effectEnv key (Effectified (mk binding))
                else assign effectEnv key (Unchanged binding)) = (\<lambda>k m. assign m k (g k))"
    unfolding g_def Let_def by (intro ext) (simp only: if_distrib [of "assign _ _"])
  then have "makeEnv mk env =
        fold (\<lambda>k m. assign m k (g k)) (map fst env)
          \<lparr>own_properties = [''~raw'' \<mapsto> Unchanged (JObj env)], prototype = None\<rparr>"
    unfolding makeEnv_def by (rule arg_cong)
  moreover have "''__proto__'' \<notin> set (map fst env)" using assms by simp
  ultimately have "makeEnv mk env =
        \<lparr>own_properties =
           (\<lambda>x. if x \<in> fst ` set env then Some (g x)
                 else [''~raw'' \<mapsto> Unchanged (JObj env)] x),
         prototype = None\<rparr>"
    by (simp add: fold_assign fun_eq_iff)
  then show ?thesis unfolding g_def .
qed

lemma isKVNamespace_iff:
  "isKVNamespace b =
     (\<exists>fs. (b = JObj fs \<or> b = JNullProto fs) \<and>
           {''get'', ''put'', ''list'', ''delete''} \<subseteq> fst ` set fs)"
  by (cases b)
     (auto simp: isKVNamespace_def typeof_def js_in_def object_prototype_names_def
        map_of_eq_None_iff)

section \<open>Properties of the classification cascade\<close>

text \<open>
  C1.  A raw failure whose provider error code is one of the recognized codes is
  classified as the variant that the code lookup table gives for that code, whatever HTTP
  status and message text the failure also carries.  The failures are those of the
  provider's interface: the message is text.
\<close>

theorem code_takes_priority:
  assumes "opt_chain e ''code'' = JNum c" and "code_table c = Some t"
    and "message_of e = Inr (JStr m)"
  shows "\<exists>v. mapError e ope key = Inr v \<and> variant_of v = t"
proof -
  from by_code_table [OF assms(2)] obtain v
    where "by_code (JNum c) (JStr m) ope key = Some (Inr v)" and "variant_of v = t"
    by blast
  with assms(1,3) show ?thesis by (simp add: mapError_def)
qed

text \<open>Code 10020 (\<open>INVALID_OBJECT_NAME\<close>) with status 500 is an invalid key, not an
  internal error.\<close>

theorem code_takes_priority_witness:
  "opt_chain (JObj [(''code'', JNum 10020), (''status'', JNum 500),
                    (''message'', JStr ''Invalid key'')]) ''code'' = JNum 10020 \<and>
   opt_chain (JObj [(''code'', JNum 10020), (''status'', JNum 500),
                    (''message'', JStr ''Invalid key'')]) ''status'' = JNum 500 \<and>
   code_table 10020 = Some InvalidKey \<and>
   message_of (JObj [(''code'', JNum 10020), (''status'', JNum 500),
                     (''message'', JStr ''Invalid key'')]) = Inr (JStr ''Invalid key'') \<and>
   (\<exists>v. mapError (JObj [(''code'', JNum 10020), (''status'', JNum 500),
                         (''message'', JStr ''Invalid key'')]) OpPut (Some []) = Inr v \<and>
        variant_of v = InvalidKey \<and> variant_of v \<noteq> InternalError)"
proof -
  let ?e = "JObj [(''code'', JNum 10020), (''status'', JNum 500),
                  (''message'', JStr ''Invalid key'')]"
  have c: "opt_chain ?e ''code'' = JNum 10020" by simp
  have s: "opt_chain ?e ''status'' = JNum 500" by simp
  have t: "code_table 10020 = Some InvalidKey" by (simp add: code_table_def)
  have m: "message_of ?e = Inr (JStr ''Invalid key'')" by (simp add: message_of_def)
  from code_takes_priority [OF c t m, of OpPut "Some []"] obtain v
    where "mapError ?e OpPut (Some []) = Inr v" and "variant_of v = InvalidKey" by blast
  then have "\<exists>v. mapError ?e OpPut (Some []) = Inr v \<and> variant_of v = InvalidKey \<and>
                 variant_of v \<noteq> InternalError"
    by simp
  with c s t m show ?thesis by blast
qed




text \<open>
  C3.  A raw failure with HTTP status 400 and no recognized provider error code, whose
  message contains \<open>key\<close> together with \<open>empty\<close> or \<open>invalid\<close>, and also \<open>multipart\<close>, is
  classified as an invalid key: the key keywords are tested before the multipart ones.
\<close>

theorem key_before_multipart:
  assumes "opt_chain e ''status'' = JNum 400"
    and "\<not> recognized_code (opt_chain e ''code'')"
    and "message_of e = Inr (JStr m)"
    and "str_includes m ''key''"
    and "str_includes m ''empty'' \<or> str_includes m ''invalid''"
    and "str_includes m ''multipart''"
  shows "mapError e ope key = Inr (R2InvalidKeyError (key_or_empty key) ope m) \<and>
         variant_of (R2InvalidKeyError (key_or_empty key) ope m) = InvalidKey"
  using mapError_400 [OF assms(1-3)] assms(4,5) by (simp add: case_400_def)

theorem key_before_multipart_witness:
  "opt_chain (JObj [(''status'', JNum 400),
                    (''message'', JStr ''invalid key in multipart upload'')]) ''status''
     = JNum 400 \<and>
   \<not> recognized_code (opt_chain (JObj [(''status'', JNum 400),
                    (''message'', JStr ''invalid key in multipart upload'')]) ''code'') \<and>
   message_of (JObj [(''status'', JNum 400),
                     (''message'', JStr ''invalid key in multipart upload'')])
     = Inr (JStr ''invalid key in multipart upload'') \<and>
   str_includes ''invalid key in multipart upload'' ''key'' \<and>
   str_includes ''invalid key in multipart upload'' ''invalid'' \<and>
   str_includes ''invalid key in multipart upload'' ''multipart'' \<and>
   mapError (JObj [(''status'', JNum 400),
                   (''message'', JStr ''invalid key in multipart upload'')])
       OpUploadPart (Some ''a'')
     = Inr (R2InvalidKeyError ''a'' OpUploadPart ''invalid key in multipart upload'')"
proof -
  let ?m = "''invalid key in multipart upload''"
  let ?e = "JObj [(''status'', JNum 400), (''message'', JStr ?m)]"
  have s: "opt_chain ?e ''status'' = JNum 400" by simp
  have c: "\<not> recognized_code (opt_chain ?e ''code'')" by (simp add: recognized_code_def)
  have m: "message_of ?e = Inr (JStr ?m)" by (simp add: message_of_def)
  have k: "str_includes ?m ''key''" by simp
  have i: "str_includes ?m ''invalid''" by simp
  have i': "str_includes ?m ''empty'' \<or> str_includes ?m ''invalid''" using i ..
  have p: "str_includes ?m ''multipart''" by simp
  from key_before_multipart [OF s c m k i' p, of OpUploadPart "Some ''a''"]
  have "mapError ?e OpUploadPart (Some ''a'') = Inr (R2InvalidKeyError ''a'' OpUploadPart ?m)"
    by (simp add: key_or_empty_def)
  with s c m k i p show ?thesis by blast
qed

text \<open>
  The catch-all does not repeat the keyword tests of the 400 case: a failure with no code
  and no status whose message contains \<open>key\<close> and \<open>empty\<close> is a network error, not an
  invalid key.
\<close>

theorem catch_all_counterexample:
  "str_includes ''key is empty'' ''key'' \<and> str_includes ''key is empty'' ''empty'' \<and>
   opt_chain (JObj [(''message'', JStr ''key is empty'')]) ''code'' = JUndefined \<and>
   opt_chain (JObj [(''message'', JStr ''key is empty'')]) ''status'' = JUndefined \<and>
   mapError (JObj [(''message'', JStr ''key is empty'')]) OpGet None =
     Inr (R2NetworkError None OpGet ''key is empty'' (JObj [(''message'', JStr ''key is empty'')])) \<and>
   variant_of (R2NetworkError None OpGet ''key is empty''
                 (JObj [(''message'', JStr ''key is empty'')])) \<noteq> InvalidKey"
  by (simp add: eval_defs)

text \<open>
  C4, as amended.  For a raw failure with no recognized provider error code and no
  recognized HTTP status, the catch-all tests three groups of message keywords, in this
  order: \<open>NoSuchBucket\<close> gives BucketNotFound; \<open>Please enable\<close> or \<open>not entitled\<close> gives
  NotEnabled; \<open>TooMuchConcurrency\<close> or \<open>concurrency\<close> gives TooMuchConcurrency; anything
  else is a NetworkError.  The key, metadata, multipart, digest and size keywords are
  tested under status 400 only.
\<close>

theorem catch_all_keywords:
  assumes "\<not> recognized_code (opt_chain e ''code'')"
    and "\<not> recognized_status (opt_chain e ''status'')"
    and "message_of e = Inr (JStr m)"
  shows "\<exists>v. mapError e ope key = Inr v \<and>
           variant_of v =
             (if str_includes m ''NoSuchBucket'' then BucketNotFound
              else if str_includes m ''Please enable'' \<or> str_includes m ''not entitled''
                then NotEnabled
              else if str_includes m ''TooMuchConcurrency'' \<or> str_includes m ''concurrency''
                then TooMuchConcurrency
              else NetworkError)"
  using mapError_fallthrough [OF assms] variant_priority_3 by simp

theorem catch_all_keywords_witness:
  "\<not> recognized_code (opt_chain (JObj [(''message'', JStr ''not entitled: concurrency'')]) ''code'') \<and>
   \<not> recognized_status
       (opt_chain (JObj [(''message'', JStr ''not entitled: concurrency'')]) ''status'') \<and>
   message_of (JObj [(''message'', JStr ''not entitled: concurrency'')])
     = Inr (JStr ''not entitled: concurrency'') \<and>
   (\<exists>v. mapError (JObj [(''message'', JStr ''not entitled: concurrency'')]) OpList None = Inr v \<and>
        variant_of v = NotEnabled)"
proof -
  let ?m = "''not entitled: concurrency''"
  let ?e = "JObj [(''message'', JStr ?m)]"
  have c: "\<not> recognized_code (opt_chain ?e ''code'')" by (simp add: recognized_code_def)
  have s: "\<not> recognized_status (opt_chain ?e ''status'')" by (simp add: recognized_status_def)
  have m: "message_of ?e = Inr (JStr ?m)" by (simp add: message_of_def)
  have k: "\<not> str_includes ?m ''NoSuchBucket''" "str_includes ?m ''not entitled''" by simp_all
  from catch_all_keywords [OF c s m, of OpList None] k
  have "\<exists>v. mapError ?e OpList None = Inr v \<and> variant_of v = NotEnabled" by simp
  with c s m show ?thesis by blast
qed

text \<open>
  The keyword tests read the message as it is, not lowercased: two failures with status
  400 whose messages are equal once lowercased are classified differently.
\<close>

theorem lowercase_counterexample:
  "toLowerCase ''Key is Empty'' = toLowerCase ''key is empty'' \<and>
   mapError (JObj [(''status'', JNum 400), (''message'', JStr ''Key is Empty'')]) OpPut None =
     Inr (R2InvalidArgumentError OpPut ''Key is Empty'' None) \<and>
   mapError (JObj [(''status'', JNum 400), (''message'', JStr ''key is empty'')]) OpPut None =
     Inr (R2InvalidKeyError [] OpPut ''key is empty'') \<and>
   variant_of (R2InvalidArgumentError OpPut ''Key is Empty'' None) \<noteq>
     variant_of (R2InvalidKeyError [] OpPut ''key is empty'')"
  by (simp add: eval_defs toLowerCase_def lower_char_def)

text \<open>
  C5, as amended.  The message-substring disambiguation scans the failure message as it
  is, with the case of its letters: for raw failures with HTTP status 400 and no recognized
  provider error code, the variant depends only on the message text, so two such failures
  with the same message are classified as the same variant, whatever else they carry and
  whatever operation and key are given.
\<close>

theorem same_message_same_variant:
  assumes "opt_chain e1 ''status'' = JNum 400" and "opt_chain e2 ''status'' = JNum 400"
    and "\<not> recognized_code (opt_chain e1 ''code'')"
    and "\<not> recognized_code (opt_chain e2 ''code'')"
    and "message_of e1 = Inr (JStr m)" and "message_of e2 = Inr (JStr m)"
  shows "\<exists>v1 v2. mapError e1 ope1 key1 = Inr v1 \<and> mapError e2 ope2 key2 = Inr v2 \<and>
           variant_of v1 = variant_of v2"
  using mapError_400 [OF assms(1,3,5), of ope1 key1] mapError_400 [OF assms(2,4,6), of ope2 key2]
    variant_case_400 [of m ope1 key1 ope2 key2]
  by simp

theorem same_message_same_variant_witness:
  "opt_chain (JObj [(''status'', JNum 400), (''message'', JStr ''Key is Empty'')]) ''status''
     = JNum 400 \<and>
   opt_chain (JObj [(''message'', JStr ''Key is Empty''), (''code'', JStr ''E1''),
                    (''status'', JNum 400)]) ''status'' = JNum 400 \<and>
   \<not> recognized_code
       (opt_chain (JObj [(''status'', JNum 400), (''message'', JStr ''Key is Empty'')]) ''code'') \<and>
   \<not> recognized_code
       (opt_chain (JObj [(''message'', JStr ''Key is Empty''), (''code'', JStr ''E1''),
                         (''status'', JNum 400)]) ''code'') \<and>
   message_of (JObj [(''status'', JNum 400), (''message'', JStr ''Key is Empty'')])
     = Inr (JStr ''Key is Empty'') \<and>
   message_of (JObj [(''message'', JStr ''Key is Empty''), (''code'', JStr ''E1''),
                     (''status'', JNum 400)]) = Inr (JStr ''Key is Empty'') \<and>
   (\<exists>v1 v2.
      mapError (JObj [(''status'', JNum 400), (''message'', JStr ''Key is Empty'')])
        OpPut None = Inr v1 \<and>
      mapError (JObj [(''message'', JStr ''Key is Empty''), (''code'', JStr ''E1''),
                      (''status'', JNum 400)]) OpGet (Some ''k'') = Inr v2 \<and>
      variant_of v1 = variant_of v2)"
proof -
  let ?e1 = "JObj [(''status'', JNum 400), (''message'', JStr ''Key is Empty'')]"
  let ?e2 = "JObj [(''message'', JStr ''Key is Empty''), (''code'', JStr ''E1''),
                   (''status'', JNum 400)]"
  have s1: "opt_chain ?e1 ''status'' = JNum 400" and s2: "opt_chain ?e2 ''status'' = JNum 400"
    by simp_all
  have c1: "\<not> recognized_code (opt_chain ?e1 ''code'')"
    and c2: "\<not> recognized_code (opt_chain ?e2 ''code'')"
    by (simp_all add: recognized_code_def)
  have m1: "message_of ?e1 = Inr (JStr ''Key is Empty'')"
    and m2: "message_of ?e2 = Inr (JStr ''Key is Empty'')"
    by (simp_all add: message_of_def)
  from same_message_same_variant [OF s1 s2 c1 c2 m1 m2, of OpPut None OpGet "Some ''k''"]
    s1 s2 c1 c2 m1 m2
  show ?thesis by blast
qed



text \<open>
  C10.  Whenever either cascade produces a rate-limit error, the error's \<open>retryAfter\<close>
  is absent and its key is the key that was supplied, or the empty string when none was;
  this happens on HTTP status 429 only.
\<close>

theorem rate_limited_fields:
  "(mapError e ope key = Inr (R2RateLimitError k ope' r) \<longrightarrow>
      r = None \<and> k = (case key of None \<Rightarrow> [] | Some s \<Rightarrow> s) \<and>
      opt_chain e ''status'' = JNum 429) \<and>
   (mapError_v2 e ope key = Inr (R2RateLimitError_v2 k ope' r) \<longrightarrow>
      r = None \<and> k = (case key of None \<Rightarrow> [] | Some s \<Rightarrow> s) \<and>
      opt_chain e ''status'' = JNum 429)"
  using mapError_rate [of e ope key k ope' r] mapError_v2_rate [of e ope key k ope' r]
  by (simp add: key_or_empty_def)

theorem rate_limited_fields_witness:
  "mapError (JObj [(''status'', JNum 429)]) OpPut (Some ''counter'')
     = Inr (R2RateLimitError ''counter'' OpPut None) \<and>
   mapError_v2 (JObj [(''status'', JNum 429)]) OpPut (Some ''counter'')
     = Inr (R2RateLimitError_v2 ''counter'' OpPut None) \<and>
   (None :: int option) = None \<and>
   ''counter'' = (case Some ''counter'' of None \<Rightarrow> [] | Some s \<Rightarrow> s) \<and>
   opt_chain (JObj [(''status'', JNum 429)]) ''status'' = JNum 429"
proof -
  let ?e = "JObj [(''status'', JNum 429)]"
  have a: "mapError ?e OpPut (Some ''counter'') = Inr (R2RateLimitError ''counter'' OpPut None)"
    by (simp add: eval_defs)
  have b: "mapError_v2 ?e OpPut (Some ''counter'')
             = Inr (R2RateLimitError_v2 ''counter'' OpPut None)"
    by (simp add: eval_v2_defs)
  from rate_limited_fields [of ?e OpPut "Some ''counter''" "''counter''" OpPut None] a b
  show ?thesis by blast
qed

section \<open>The two cascades\<close>

text \<open>
  C6.  The two versions of the cascade diverge.  On every raw failure with status 413,
  no recognized provider error code and a message without \<open>NoSuchBucket\<close> and
  \<open>Please enable\<close>, they return different variants: the second classifies by the status
  (metadata too large when the message mentions metadata, object too large otherwise),
  the first has no case for 413 and falls to its catch-all.  The error union of the second
  version has no ObjectTooSmall, BadDigest, InvalidMaxKeys or InvalidRange variant.
\<close>

theorem cascades_diverge:
  assumes "opt_chain e ''status'' = JNum 413"
    and "\<not> recognized_code (opt_chain e ''code'')"
    and "message_of e = Inr (JStr m)"
    and "\<not> str_includes m ''NoSuchBucket''" and "\<not> str_includes m ''Please enable''"
  shows "(\<exists>v1 v2. mapError e ope key = Inr v1 \<and> mapError_v2 e ope key = Inr v2 \<and>
            variant_of v1 \<noteq> variant_of_v2 v2 \<and>
            variant_of v1 \<in> {NotEnabled, TooMuchConcurrency, NetworkError} \<and>
            variant_of_v2 v2 =
              (if str_includes m ''metadata'' \<or> str_includes m ''Metadata''
               then MetadataTooLarge else ObjectTooLarge)) \<and>
         (\<forall>v. variant_of_v2 v \<notin> {ObjectTooSmall, BadDigest, InvalidMaxKeys, InvalidRange})"
proof -
  have st: "\<not> recognized_status (opt_chain e ''status'')"
    using assms(1) unrecognized_413 by simp
  have v1: "mapError e ope key = Inr (priority_3 e m ope key)"
    by (rule mapError_fallthrough [OF assms(2) st assms(3)])
  have t1: "variant_of (priority_3 e m ope key) \<in> {NotEnabled, TooMuchConcurrency, NetworkError}"
    using assms(4) by (simp add: priority_3_def)
  have v2: "mapError_v2 e ope key = Inr (switch_status_v2 e (JNum 413) m ope key)"
    using assms(1,3,4,5) unrecognized_v2_codes [OF assms(2)] by (simp add: mapError_v2_def)
  have t2: "variant_of_v2 (switch_status_v2 e (JNum 413) m ope key) =
              (if str_includes m ''metadata'' \<or> str_includes m ''Metadata''
               then MetadataTooLarge else ObjectTooLarge)"
    by (simp add: switch_status_v2_def)
  have ne: "variant_of (priority_3 e m ope key) \<noteq>
            variant_of_v2 (switch_status_v2 e (JNum 413) m ope key)"
    using t1 t2 by auto
  have lacks: "variant_of_v2 v \<notin> {ObjectTooSmall, BadDigest, InvalidMaxKeys, InvalidRange}" for v
    by (cases v) simp_all
  show ?thesis using v1 v2 t1 t2 ne lacks by simp
qed

theorem cascades_diverge_witness:
  "opt_chain (JObj [(''status'', JNum 413), (''message'', JStr ''Payload Too Large'')]) ''status''
     = JNum 413 \<and>
   \<not> recognized_code
       (opt_chain (JObj [(''status'', JNum 413), (''message'', JStr ''Payload Too Large'')])
          ''code'') \<and>
   message_of (JObj [(''status'', JNum 413), (''message'', JStr ''Payload Too Large'')])
     = Inr (JStr ''Payload Too Large'') \<and>
   \<not> str_includes ''Payload Too Large'' ''NoSuchBucket'' \<and>
   \<not> str_includes ''Payload Too Large'' ''Please enable'' \<and>
   \<not> str_includes ''Payload Too Large'' ''metadata'' \<and>
   \<not> str_includes ''Payload Too Large'' ''Metadata'' \<and>
   (\<exists>v1 v2.
      mapError (JObj [(''status'', JNum 413), (''message'', JStr ''Payload Too Large'')])
        OpPut (Some ''big'') = Inr v1 \<and>
      mapError_v2 (JObj [(''status'', JNum 413), (''message'', JStr ''Payload Too Large'')])
        OpPut (Some ''big'') = Inr v2 \<and>
      variant_of v1 \<noteq> variant_of_v2 v2 \<and> variant_of_v2 v2 = ObjectTooLarge)"
proof -
  let ?m = "''Payload Too Large''"
  let ?e = "JObj [(''status'', JNum 413), (''message'', JStr ?m)]"
  have s: "opt_chain ?e ''status'' = JNum 413" by simp
  have c: "\<not> recognized_code (opt_chain ?e ''code'')" by (simp add: recognized_code_def)
  have m: "message_of ?e = Inr (JStr ?m)" by (simp add: message_of_def)
  have k1: "\<not> str_includes ?m ''NoSuchBucket''" and k2: "\<not> str_includes ?m ''Please enable''"
    and k3: "\<not> str_includes ?m ''metadata''" and k4: "\<not> str_includes ?m ''Metadata''"
    by simp_all
  from cascades_diverge [OF s c m k1 k2, of OpPut "Some ''big''"] k3 k4
  have "\<exists>v1 v2. mapError ?e OpPut (Some ''big'') = Inr v1 \<and>
          mapError_v2 ?e OpPut (Some ''big'') = Inr v2 \<and>
          variant_of v1 \<noteq> variant_of_v2 v2 \<and> variant_of_v2 v2 = ObjectTooLarge"
    by auto
  with s c m k1 k2 k3 k4 show ?thesis by blast
qed

section \<open>Properties of the conditional-result adapter\<close>

lemma make_head_eq:
  "make_head b key =
     tryPromise (await_return (bucket_head b key) null_to_none)
       (\<lambda>error. mapError error OpHead (Some key))"
  by (simp add: make_head_def)

lemma make_get_eq:
  "make_get b key opts =
     tryPromise (await_return (bucket_get b key (native_call opts)) null_to_none)
       (\<lambda>error. mapError error OpGet (Some key))"
  by (cases opts) (simp_all add: make_get_def native_call_def)

lemma tryPromise_absent:
  "(tryPromise (await_return p null_to_none) c = Success None) = (p = Resolved JNull)"
  by (cases p) (simp_all add: tryPromise_def null_to_none_def split: sum.splits)

lemma tryPromise_present:
  "p = Resolved v \<Longrightarrow> v \<noteq> JNull \<Longrightarrow>
     tryPromise (await_return p null_to_none) c = Success (Some v)"
  by (simp add: tryPromise_def null_to_none_def)

lemma tryPromise_rejected:
  "p = Rejected e \<Longrightarrow>
     tryPromise (await_return p null_to_none) c \<noteq> Success x \<and>
     tryPromise (await_return p null_to_none) c =
       (case c e of Inr err \<Rightarrow> Failure err | Inl d \<Rightarrow> Die d)"
  by (simp add: tryPromise_def split: sum.splits)

text \<open>
  When the provider raises a failure on which \<open>mapError\<close> itself raises, \<open>head\<close> and
  \<open>get\<close> return no typed error: the effect ends in a defect.
\<close>

theorem optional_semantics_counterexample:
  "bucket_head (constant_bucket (Rejected (JObj [(''toString'', JStr ''x'')]))) ''k''
     = Rejected (JObj [(''toString'', JStr ''x'')]) \<and>
   bucket_get (constant_bucket (Rejected (JObj [(''toString'', JStr ''x'')]))) ''k'' None
     = Rejected (JObj [(''toString'', JStr ''x'')]) \<and>
   make_head (constant_bucket (Rejected (JObj [(''toString'', JStr ''x'')]))) ''k''
     = Die TypeError \<and>
   make_get (constant_bucket (Rejected (JObj [(''toString'', JStr ''x'')]))) ''k'' None
     = Die TypeError"
  by (simp add: constant_bucket_def make_head_def make_get_def tryPromise_def eval_defs)

text \<open>
  C7, as amended.  For every provider, key and options, \<open>head\<close> and \<open>get\<close> return an
  absent optional exactly when the provider call they make resolves to \<open>null\<close>, and a
  present optional holding the value when it resolves to a value.  When the provider
  raises they never return an optional: they return the typed error that \<open>mapError\<close>
  gives for the failure, the operation and the key whenever \<open>mapError\<close> returns one, which
  it does on every failure whose message is text, and they end in a defect when
  \<open>mapError\<close> itself raises.
\<close>

theorem optional_semantics:
  "((make_head b key = Success None) = (bucket_head b key = Resolved JNull)) \<and>
   ((make_get b key opts = Success None) =
      (bucket_get b key (native_call opts) = Resolved JNull)) \<and>
   (bucket_head b key = Resolved v \<and> v \<noteq> JNull \<longrightarrow> make_head b key = Success (Some v)) \<and>
   (bucket_get b key (native_call opts) = Resolved v \<and> v \<noteq> JNull \<longrightarrow>
      make_get b key opts = Success (Some v)) \<and>
   (bucket_head b key = Rejected e \<longrightarrow>
      make_head b key \<noteq> Success x \<and>
      make_head b key =
        (case mapError e OpHead (Some key) of Inr err \<Rightarrow> Failure err | Inl d \<Rightarrow> Die d)) \<and>
   (bucket_get b key (native_call opts) = Rejected e \<longrightarrow>
      make_get b key opts \<noteq> Success x \<and>
      make_get b key opts =
        (case mapError e OpGet (Some key) of Inr err \<Rightarrow> Failure err | Inl d \<Rightarrow> Die d)) \<and>
   (bucket_head b key = Rejected e \<and> text_failure e \<longrightarrow>
      (\<exists>err. mapError e OpHead (Some key) = Inr err \<and> make_head b key = Failure err)) \<and>
   (bucket_get b key (native_call opts) = Rejected e \<and> text_failure e \<longrightarrow>
      (\<exists>err. mapError e OpGet (Some key) = Inr err \<and> make_get b key opts = Failure err))"
proof -
  let ?ch = "\<lambda>error. mapError error OpHead (Some key)"
  let ?cg = "\<lambda>error. mapError error OpGet (Some key)"
  have returns: "\<exists>err. mapError e ope (Some key) = Inr err" if "text_failure e" for ope
    using text_failure_message [OF that] mapError_text_returns by blast
  have a1: "(make_head b key = Success None) = (bucket_head b key = Resolved JNull)"
    by (simp add: make_head_eq tryPromise_absent)
  have a2: "(make_get b key opts = Success None) =
              (bucket_get b key (native_call opts) = Resolved JNull)"
    by (simp add: make_get_eq tryPromise_absent)
  have p1: "make_head b key = Success (Some v)"
    if "bucket_head b key = Resolved v" and "v \<noteq> JNull"
    using tryPromise_present [OF that] by (simp add: make_head_eq)
  have p2: "make_get b key opts = Success (Some v)"
    if "bucket_get b key (native_call opts) = Resolved v" and "v \<noteq> JNull"
    using tryPromise_present [OF that] by (simp add: make_get_eq)
  have r1: "make_head b key \<noteq> Success x \<and>
            make_head b key =
              (case mapError e OpHead (Some key) of Inr err \<Rightarrow> Failure err | Inl d \<Rightarrow> Die d)"
    if "bucket_head b key = Rejected e"
    using tryPromise_rejected [OF that, where c = ?ch and x = x]
    by (simp add: make_head_eq split: sum.splits)
  have r2: "make_get b key opts \<noteq> Success x \<and>
            make_get b key opts =
              (case mapError e OpGet (Some key) of Inr err \<Rightarrow> Failure err | Inl d \<Rightarrow> Die d)"
    if "bucket_get b key (native_call opts) = Rejected e"
    using tryPromise_rejected [OF that, where c = ?cg and x = x]
    by (simp add: make_get_eq split: sum.splits)
  have t1: "\<exists>err. mapError e OpHead (Some key) = Inr err \<and> make_head b key = Failure err"
    if "bucket_head b key = Rejected e" and "text_failure e"
  proof -
    from returns [OF that(2)] obtain err where "mapError e OpHead (Some key) = Inr err" ..
    with r1 [OF that(1)] show ?thesis by simp
  qed
  have t2: "\<exists>err. mapError e OpGet (Some key) = Inr err \<and> make_get b key opts = Failure err"
    if "bucket_get b key (native_call opts) = Rejected e" and "text_failure e"
  proof -
    from returns [OF that(2)] obtain err where "mapError e OpGet (Some key) = Inr err" ..
    with r2 [OF that(1)] show ?thesis by simp
  qed
  show ?thesis using a1 a2 p1 p2 r1 r2 t1 t2 by blast
qed

text \<open>The outcomes on a provider whose \<open>get\<close> depends on its options, and on one that
  rejects with an authorization failure.\<close>

theorem optional_semantics_witness:
  "bucket_get (conditional_bucket (JObj [(''size'', JNum 3)])) ''k''
       (native_call (Some \<lparr>onlyIf = Some (), range = None\<rparr>)) = Resolved JNull \<and>
   make_get (conditional_bucket (JObj [(''size'', JNum 3)])) ''k''
       (Some \<lparr>onlyIf = Some (), range = None\<rparr>) = Success None \<and>
   bucket_get (conditional_bucket (JObj [(''size'', JNum 3)])) ''k'' (native_call None)
     = Resolved (JObj [(''size'', JNum 3)]) \<and>
   make_get (conditional_bucket (JObj [(''size'', JNum 3)])) ''k'' None
     = Success (Some (JObj [(''size'', JNum 3)])) \<and>
   bucket_head (conditional_bucket (JObj [(''size'', JNum 3)])) ''k''
     = Resolved (JObj [(''size'', JNum 3)]) \<and>
   make_head (conditional_bucket (JObj [(''size'', JNum 3)])) ''k''
     = Success (Some (JObj [(''size'', JNum 3)])) \<and>
   bucket_head (constant_bucket
       (Rejected (JObj [(''status'', JNum 403), (''message'', JStr ''Forbidden'')]))) ''k''
     = Rejected (JObj [(''status'', JNum 403), (''message'', JStr ''Forbidden'')]) \<and>
   bucket_get (constant_bucket
       (Rejected (JObj [(''status'', JNum 403), (''message'', JStr ''Forbidden'')]))) ''k''
       (native_call None)
     = Rejected (JObj [(''status'', JNum 403), (''message'', JStr ''Forbidden'')]) \<and>
   text_failure (JObj [(''status'', JNum 403), (''message'', JStr ''Forbidden'')]) \<and>
   make_head (constant_bucket
       (Rejected (JObj [(''status'', JNum 403), (''message'', JStr ''Forbidden'')]))) ''k''
     = Failure (R2AuthorizationError OpHead ''Forbidden'') \<and>
   make_get (constant_bucket
       (Rejected (JObj [(''status'', JNum 403), (''message'', JStr ''Forbidden'')]))) ''k'' None
     = Failure (R2AuthorizationError OpGet ''Forbidden'')"
proof -
  let ?v = "JObj [(''size'', JNum 3)]"
  let ?e = "JObj [(''status'', JNum 403), (''message'', JStr ''Forbidden'')]"
  let ?c = "conditional_bucket ?v"
  let ?r = "constant_bucket (Rejected ?e)"
  let ?cond = "Some \<lparr>onlyIf = Some (), range = None\<rparr>"
  have g1: "bucket_get ?c ''k'' (native_call ?cond) = Resolved JNull"
    and g2: "bucket_get ?c ''k'' (native_call None) = Resolved ?v"
    and h2: "bucket_head ?c ''k'' = Resolved ?v"
    by (simp_all add: conditional_bucket_def native_call_def)
  have h3: "bucket_head ?r ''k'' = Rejected ?e"
    and g3: "bucket_get ?r ''k'' (native_call None) = Rejected ?e"
    by (simp_all add: constant_bucket_def)
  have t: "text_failure ?e" by (simp add: text_failure_def)
  have mh: "mapError ?e OpHead (Some ''k'') = Inr (R2AuthorizationError OpHead ''Forbidden'')"
    and mg: "mapError ?e OpGet (Some ''k'') = Inr (R2AuthorizationError OpGet ''Forbidden'')"
    by (simp_all add: eval_defs)
  have r1: "make_get ?c ''k'' ?cond = Success None"
    using optional_semantics [of ?c "''k''" ?cond] g1 by blast
  have r2: "make_get ?c ''k'' None = Success (Some ?v)"
    using optional_semantics [of ?c "''k''" None ?v] g2 by blast
  have r3: "make_head ?c ''k'' = Success (Some ?v)"
    using optional_semantics [of ?c "''k''" _ ?v] h2 by blast
  have r4: "make_head ?r ''k'' = Failure (R2AuthorizationError OpHead ''Forbidden'')"
    using optional_semantics [of ?r "''k''" None _ ?e] h3 t mh by auto
  have r5: "make_get ?r ''k'' None = Failure (R2AuthorizationError OpGet ''Forbidden'')"
    using optional_semantics [of ?r "''k''" None _ ?e] g3 t mg by auto
  from g1 r1 g2 r2 h2 r3 h3 g3 t r4 r5 show ?thesis by (intro conjI)
qed

section \<open>Properties of the environment resolver\<close>

text \<open>
  An environment that has a binding named \<open>~raw\<close> itself: the loop over the bindings
  overwrites the entry that held the raw environment.
\<close>

theorem makeEnv_raw_counterexample:
  "own_properties (makeEnv Some [(''~raw'', JNum 5)]) ''~raw'' = Some (Unchanged (JNum 5)) \<and>
   own_properties (makeEnv Some [(''~raw'', JNum 5)]) ''~raw''
     \<noteq> Some (Unchanged (JObj [(''~raw'', JNum 5)]))"
  by (simp add: makeEnv_def env_get_def assign_def isKVNamespace_def typeof_def)

text \<open>
  C9, as amended.  For every environment object that has no binding named \<open>~raw\<close> or
  \<open>__proto__\<close>, \<open>makeEnv\<close> wraps exactly the bindings detected as key-value namespaces (an
  object that has the properties \<open>get\<close>, \<open>put\<close>, \<open>list\<close> and \<open>delete\<close>), stores every
  other binding unchanged under its name, keeps every binding name, stores the raw
  environment under \<open>~raw\<close>, and leaves the prototype of the result alone.
\<close>

theorem makeEnv_frame:
  assumes "''~raw'' \<notin> fst ` set env" and "''__proto__'' \<notin> fst ` set env"
  shows "(\<forall>key binding. map_of env key = Some binding \<longrightarrow>
            own_properties (makeEnv mk env) key =
              Some (if isKVNamespace binding then Effectified (mk binding)
                    else Unchanged binding)) \<and>
         dom (own_properties (makeEnv mk env)) = insert ''~raw'' (fst ` set env) \<and>
         own_properties (makeEnv mk env) ''~raw'' = Some (Unchanged (JObj env)) \<and>
         prototype (makeEnv mk env) = None \<and>
         (\<forall>b. isKVNamespace b =
            (\<exists>fs. (b = JObj fs \<or> b = JNullProto fs) \<and>
                  {''get'', ''put'', ''list'', ''delete''} \<subseteq> fst ` set fs))"
proof -
  note lookup = makeEnv_lookup [OF assms(2), of mk]
  have a: "own_properties (makeEnv mk env) key =
             Some (if isKVNamespace binding then Effectified (mk binding) else Unchanged binding)"
    if "map_of env key = Some binding" for key binding
  proof -
    from that have "(key, binding) \<in> set env" by (rule map_of_SomeD)
    then have "key \<in> fst ` set env" by force
    with that show ?thesis by (simp add: lookup env_get_def)
  qed
  have b: "dom (own_properties (makeEnv mk env)) = insert ''~raw'' (fst ` set env)"
    by (auto simp: lookup dom_def split: if_splits)
  have c: "own_properties (makeEnv mk env) ''~raw'' = Some (Unchanged (JObj env))"
    using assms(1) by (simp add: lookup)
  have d: "prototype (makeEnv mk env) = None"
    by (simp add: lookup)
  show ?thesis using a b c d isKVNamespace_iff by blast
qed

theorem makeEnv_frame_witness:
  "''~raw'' \<notin> fst ` set [(''KV'', JObj [(''get'', JFun ''f'' None), (''put'', JFun ''f'' None),
                                         (''list'', JFun ''f'' None), (''delete'', JFun ''f'' None)]),
                          (''SECRET'', JStr ''s3'')] \<and>
   ''__proto__'' \<notin> fst ` set [(''KV'', JObj [(''get'', JFun ''f'' None), (''put'', JFun ''f'' None),
                                         (''list'', JFun ''f'' None), (''delete'', JFun ''f'' None)]),
                          (''SECRET'', JStr ''s3'')] \<and>
   own_properties
     (makeEnv Some [(''KV'', JObj [(''get'', JFun ''f'' None), (''put'', JFun ''f'' None),
                                   (''list'', JFun ''f'' None), (''delete'', JFun ''f'' None)]),
                    (''SECRET'', JStr ''s3'')]) ''KV''
     = Some (Effectified (Some (JObj [(''get'', JFun ''f'' None), (''put'', JFun ''f'' None),
                                      (''list'', JFun ''f'' None), (''delete'', JFun ''f'' None)]))) \<and>
   own_properties
     (makeEnv Some [(''KV'', JObj [(''get'', JFun ''f'' None), (''put'', JFun ''f'' None),
                                   (''list'', JFun ''f'' None), (''delete'', JFun ''f'' None)]),
                    (''SECRET'', JStr ''s3'')]) ''SECRET''
     = Some (Unchanged (JStr ''s3'')) \<and>
   own_properties
     (makeEnv Some [(''KV'', JObj [(''get'', JFun ''f'' None), (''put'', JFun ''f'' None),
                                   (''list'', JFun ''f'' None), (''delete'', JFun ''f'' None)]),
                    (''SECRET'', JStr ''s3'')]) ''~raw''
     = Some (Unchanged
               (JObj [(''KV'', JObj [(''get'', JFun ''f'' None), (''put'', JFun ''f'' None),
                                     (''list'', JFun ''f'' None), (''delete'', JFun ''f'' None)]),
                      (''SECRET'', JStr ''s3'')]))"
proof -
  let ?kv = "JObj [(''get'', JFun ''f'' None), (''put'', JFun ''f'' None),
                   (''list'', JFun ''f'' None), (''delete'', JFun ''f'' None)]"
  let ?env = "[(''KV'', ?kv), (''SECRET'', JStr ''s3'')]"
  have h: "''~raw'' \<notin> fst ` set ?env" and h': "''__proto__'' \<notin> fst ` set ?env" by simp_all
  have kv: "isKVNamespace ?kv" and sec: "\<not> isKVNamespace (JStr ''s3'')"
    by (simp_all add: isKVNamespace_def typeof_def js_in_def)
  have l1: "map_of ?env ''KV'' = Some ?kv" and l2: "map_of ?env ''SECRET'' = Some (JStr ''s3'')"
    by simp_all
  note f = makeEnv_frame [OF h h', of Some]
  from f l1 kv have r1: "own_properties (makeEnv Some ?env) ''KV'' = Some (Effectified (Some ?kv))"
    by simp
  from f l2 sec
  have r2: "own_properties (makeEnv Some ?env) ''SECRET'' = Some (Unchanged (JStr ''s3''))"
    by simp
  from f have r3: "own_properties (makeEnv Some ?env) ''~raw'' = Some (Unchanged (JObj ?env))"
    by simp
  from h h' r1 r2 r3 show ?thesis by (intro conjI)
qed

end
